theory Spec2Isabelle
  imports Complex_Main
begin

section \<open>Data model of Def.h\<close>

text \<open>
  The header \<^verbatim>\<open>Def.h\<close> declares four classes: \<^verbatim>\<open>Station\<close>, \<^verbatim>\<open>Stations\<close>,
  \<^verbatim>\<open>PositionsList\<close> and \<^verbatim>\<open>Signal\<close>. Their member functions are embedded below as
  functions on records, the object being passed in and returned updated.

  Numbers: \<^verbatim>\<open>double\<close> and \<^verbatim>\<open>long double\<close> values are modelled as real numbers, so
  the arithmetic of the model is exact and rounding is outside of it. The two places
  where the header divides by a container size that can be zero are modelled with an
  explicit quotient type (\<open>fquot\<close>), since HOL's own \<open>x / 0 = 0\<close> is not what the
  machine division yields. Container sizes are reported as \<open>int\<close>, the return type of
  the \<^verbatim>\<open>size()\<close> members; the element count of a vector is taken to fit into it.

  Failure: the only failing operation of the header is \<^verbatim>\<open>std::vector::at\<close>, which throws
  \<^verbatim>\<open>std::out_of_range\<close>. It is a value of the result type \<open>error + 'a\<close> here.

  A data member that a constructor leaves unwritten has an indeterminate value in C++.
  Such members are \<open>real option\<close> fields, \<open>None\<close> standing for "never written".
\<close>

datatype error = OutOfRange

text \<open>
  \<^verbatim>\<open>v.at(i)\<close> with an \<^verbatim>\<open>int\<close> argument: the index is converted to the unsigned
  \<^verbatim>\<open>size_type\<close>, so a negative index is far beyond the end and throws as well.
\<close>

definition vec_at :: "'a list \<Rightarrow> int \<Rightarrow> error + 'a" where
  "vec_at v i = (if 0 \<le> i \<and> i < int (length v) then Inr (v ! nat i) else Inl OutOfRange)"

text \<open>
  The result of a floating-point division \<^verbatim>\<open>a / n\<close> by a container size \<open>n\<close>: a finite
  quotient when \<open>n\<close> is not zero, and otherwise the IEEE special values (\<^verbatim>\<open>0/0\<close> is not a
  number, a nonzero dividend over zero is an infinity of its sign).
\<close>

datatype fquot = Finite real | NaN | PosInf | NegInf

definition fdiv :: "real \<Rightarrow> nat \<Rightarrow> fquot" where
  "fdiv a n =
     (if n \<noteq> 0 then Finite (a / real n)
      else if a = 0 then NaN
      else if 0 < a then PosInf else NegInf)"

subsection \<open>class Station\<close>

text \<open>
  Members \<^verbatim>\<open>x, y, z, t, r, dt, delay\<close>. Every constructor writes the coordinates; which of
  the other members it writes depends on the constructor.
\<close>

record Station =
  st_x :: real
  st_y :: real
  st_z :: real
  st_t :: "real option"
  st_r :: "real option"
  st_dt :: "real option"
  st_delay :: "real option"

text \<open>\<^verbatim>\<open>Station(ax, ay, az, at = 0)\<close>: position and time of receiving the signal.\<close>

definition Station_recv :: "real \<Rightarrow> real \<Rightarrow> real \<Rightarrow> real \<Rightarrow> Station" where
  "Station_recv ax ay az aT =
     \<lparr>st_x = ax, st_y = ay, st_z = az, st_t = Some aT,
      st_r = None, st_dt = None, st_delay = None\<rparr>"

text \<open>
  \<^verbatim>\<open>Station(ax, ay, az, at0, aR, aDelay = 0)\<close>: position, radius and delay. The
  parameter \<^verbatim>\<open>at0\<close> is not used by the constructor.
\<close>

definition Station_range :: "real \<Rightarrow> real \<Rightarrow> real \<Rightarrow> real \<Rightarrow> real \<Rightarrow> real \<Rightarrow> Station" where
  "Station_range ax ay az at0 aR aDelay =
     \<lparr>st_x = ax, st_y = ay, st_z = az, st_t = None,
      st_r = Some aR, st_dt = None, st_delay = Some aDelay\<rparr>"

text \<open>\<^verbatim>\<open>setR(aT0)\<close>: \<^verbatim>\<open>clight = 299792458; dt = t - aT0; r = dt * clight\<close>.\<close>

definition setR :: "Station \<Rightarrow> real \<Rightarrow> Station" where
  "setR s aT0 =
     (let clight = 299792458;
          dt = map_option (\<lambda>t. t - aT0) (st_t s);
          r = map_option (\<lambda>d. d * clight) dt
      in s\<lparr>st_dt := dt, st_r := r\<rparr>)"

definition Station_getX :: "Station \<Rightarrow> real" where
  "Station_getX s = st_x s"

definition Station_getY :: "Station \<Rightarrow> real" where
  "Station_getY s = st_y s"

definition Station_getZ :: "Station \<Rightarrow> real" where
  "Station_getZ s = st_z s"

definition Station_getR :: "Station \<Rightarrow> real option" where
  "Station_getR s = st_r s"

definition getDelay :: "Station \<Rightarrow> real option" where
  "getDelay s = st_delay s"

subsection \<open>class Signal\<close>

text \<open>
  Members \<^verbatim>\<open>mSatId\<close>, \<^verbatim>\<open>mTimestamp\<close> and \<^verbatim>\<open>mGroundStations\<close>, a vector of
  5-tuples \<open>(x, y, z, r, delay)\<close>.
\<close>

type_synonym GroundStation = "real \<times> real \<times> real \<times> real \<times> real"

fun get0 :: "GroundStation \<Rightarrow> real" where "get0 (a, b, c, d, e) = a"
fun get1 :: "GroundStation \<Rightarrow> real" where "get1 (a, b, c, d, e) = b"
fun get2 :: "GroundStation \<Rightarrow> real" where "get2 (a, b, c, d, e) = c"
fun get3 :: "GroundStation \<Rightarrow> real" where "get3 (a, b, c, d, e) = d"
fun get4 :: "GroundStation \<Rightarrow> real" where "get4 (a, b, c, d, e) = e"

record Signal =
  mSatId :: int
  mTimestamp :: real
  mGroundStations :: "GroundStation list"

text \<open>\<^verbatim>\<open>Signal(aSatId, aTimestamp)\<close>: no ground stations yet.\<close>

definition Signal_new :: "int \<Rightarrow> real \<Rightarrow> Signal" where
  "Signal_new aSatId aTimestamp =
     \<lparr>mSatId = aSatId, mTimestamp = aTimestamp, mGroundStations = []\<rparr>"

text \<open>\<^verbatim>\<open>addGroundStation(ax, ay, az, ar)\<close>: the range is given, the delay is 0.\<close>

definition addGroundStation :: "Signal \<Rightarrow> real \<Rightarrow> real \<Rightarrow> real \<Rightarrow> real \<Rightarrow> Signal" where
  "addGroundStation sg ax ay az ar =
     sg\<lparr>mGroundStations := mGroundStations sg @ [(ax, ay, az, ar, 0)]\<rparr>"

text \<open>
  \<^verbatim>\<open>addGroundStation(ax, ay, az, at0, adt, aDelay = 0)\<close>:
  \<^verbatim>\<open>clight = 299792458; r = clight * adt\<close>. The parameter \<^verbatim>\<open>at0\<close> is not used.
\<close>

definition addGroundStation_dt ::
  "Signal \<Rightarrow> real \<Rightarrow> real \<Rightarrow> real \<Rightarrow> real \<Rightarrow> real \<Rightarrow> real \<Rightarrow> Signal" where
  "addGroundStation_dt sg ax ay az at0 adt aDelay =
     (let clight = 299792458;
          r = clight * adt
      in sg\<lparr>mGroundStations := mGroundStations sg @ [(ax, ay, az, r, aDelay)]\<rparr>)"

subsection \<open>class Stations\<close>

text \<open>
  Members \<^verbatim>\<open>mStations\<close>, a vector of stations, and \<^verbatim>\<open>mT\<close>, which the constructor
  leaves unwritten.
\<close>

record Stations =
  mStations :: "Station list"
  mT :: "real option"

definition Stations_new :: Stations where
  "Stations_new = \<lparr>mStations = [], mT = None\<rparr>"

text \<open>\<^verbatim>\<open>addStation(aStation)\<close>: \<^verbatim>\<open>mStations.push_back(aStation)\<close>.\<close>

definition addStation :: "Stations \<Rightarrow> Station \<Rightarrow> Stations" where
  "addStation sts aStation = sts\<lparr>mStations := mStations sts @ [aStation]\<rparr>"

text \<open>
  \<^verbatim>\<open>addStation(ax, ay, az, at0, aR)\<close>: builds the station with the second constructor
  (whose delay defaults to 0) and appends it.
\<close>

definition addStation_range ::
  "Stations \<Rightarrow> real \<Rightarrow> real \<Rightarrow> real \<Rightarrow> real \<Rightarrow> real \<Rightarrow> Stations" where
  "addStation_range sts ax ay az at0 aR =
     (let aStation = Station_range ax ay az at0 aR 0
      in sts\<lparr>mStations := mStations sts @ [aStation]\<rparr>)"

text \<open>\<^verbatim>\<open>addStations(ax, ay, az, at)\<close>: builds the station with the first constructor.\<close>

definition addStations :: "Stations \<Rightarrow> real \<Rightarrow> real \<Rightarrow> real \<Rightarrow> real \<Rightarrow> Stations" where
  "addStations sts ax ay az aT =
     (let aStation = Station_recv ax ay az aT
      in sts\<lparr>mStations := mStations sts @ [aStation]\<rparr>)"

definition setTime :: "Stations \<Rightarrow> real \<Rightarrow> Stations" where
  "setTime sts aT = sts\<lparr>mT := Some aT\<rparr>"

definition Stations_size :: "Stations \<Rightarrow> int" where
  "Stations_size sts = int (length (mStations sts))"

text \<open>\<^verbatim>\<open>getStation(iStationNb)\<close>: \<^verbatim>\<open>mStations.at(iStationNb)\<close>.\<close>

definition getStation :: "Stations \<Rightarrow> int \<Rightarrow> error + Station" where
  "getStation sts iStationNb = vec_at (mStations sts) iStationNb"

definition Stations_clear :: "Stations \<Rightarrow> Stations" where
  "Stations_clear sts = sts\<lparr>mStations := []\<rparr>"

subsection \<open>Delay statistics\<close>

text \<open>
  Both \<^verbatim>\<open>printDelayStats\<close> members run the same loop body over the delays. Its three
  local variables are carried as the triple \<open>(minDelay, maxDelay, sumDelay)\<close>, which
  starts as \<open>(100, 0, 0)\<close>:
  \<^verbatim>\<open>sumDelay += current; if (current > maxDelay) maxDelay = current;
  if (current < minDelay) minDelay = current;\<close>
\<close>

type_synonym delay_acc = "real \<times> real \<times> real"

definition delayInit :: delay_acc where
  "delayInit = (100, 0, 0)"

fun delayStep :: "real \<Rightarrow> delay_acc \<Rightarrow> delay_acc" where
  "delayStep current (minDelay, maxDelay, sumDelay) =
     (if current < minDelay then current else minDelay,
      if current > maxDelay then current else maxDelay,
      sumDelay + current)"

text \<open>
  What the members write to the standard output, as the values of the printed line:
  satellite id, timestamp, \<^verbatim>\<open>sumDelay / size\<close>, \<^verbatim>\<open>minDelay\<close>, \<^verbatim>\<open>maxDelay\<close>.
\<close>

record DelayReport =
  rep_satId :: int
  rep_timestamp :: real
  rep_mean :: fquot
  rep_min :: real
  rep_max :: real

text \<open>
  \<^verbatim>\<open>Stations::printDelayStats(aSatId, aTimestamp)\<close>. The loop reads \<^verbatim>\<open>getDelay()\<close> of
  every station; reading a delay that was never written has no defined result, and the
  model returns \<open>None\<close> there.
\<close>

fun Stations_delayLoop :: "Station list \<Rightarrow> delay_acc \<Rightarrow> delay_acc option" where
  "Stations_delayLoop [] acc = Some acc"
| "Stations_delayLoop (s # ss) acc =
     (case getDelay s of
        None \<Rightarrow> None
      | Some current \<Rightarrow> Stations_delayLoop ss (delayStep current acc))"

definition Stations_printDelayStats :: "Stations \<Rightarrow> int \<Rightarrow> real \<Rightarrow> DelayReport option" where
  "Stations_printDelayStats sts aSatId aTimestamp =
     (case Stations_delayLoop (mStations sts) delayInit of
        None \<Rightarrow> None
      | Some (minDelay, maxDelay, sumDelay) \<Rightarrow>
          Some \<lparr>rep_satId = aSatId, rep_timestamp = aTimestamp,
                rep_mean = fdiv sumDelay (length (mStations sts)),
                rep_min = minDelay, rep_max = maxDelay\<rparr>)"

text \<open>\<^verbatim>\<open>Signal::printDelayStats()\<close>: the delay is the fifth component of each tuple.\<close>

fun Signal_delayLoop :: "GroundStation list \<Rightarrow> delay_acc \<Rightarrow> delay_acc" where
  "Signal_delayLoop [] acc = acc"
| "Signal_delayLoop (g # gs) acc = Signal_delayLoop gs (delayStep (get4 g) acc)"

definition Signal_printDelayStats :: "Signal \<Rightarrow> DelayReport" where
  "Signal_printDelayStats sg =
     (case Signal_delayLoop (mGroundStations sg) delayInit of
        (minDelay, maxDelay, sumDelay) \<Rightarrow>
          \<lparr>rep_satId = mSatId sg, rep_timestamp = mTimestamp sg,
           rep_mean = fdiv sumDelay (length (mGroundStations sg)),
           rep_min = minDelay, rep_max = maxDelay\<rparr>)"

subsection \<open>Signal: conversion and lookup\<close>

text \<open>
  \<^verbatim>\<open>convertStationToSignal(aStations)\<close>: every tuple becomes a station built with the
  second constructor, \<^verbatim>\<open>Station(x, y, z, mTimestamp, r, delay)\<close>, appended to the
  collection passed by reference.
\<close>

fun convertLoop :: "GroundStation list \<Rightarrow> real \<Rightarrow> Stations \<Rightarrow> Stations" where
  "convertLoop [] ts aStations = aStations"
| "convertLoop (g # gs) ts aStations =
     (let lStation = Station_range (get0 g) (get1 g) (get2 g) ts (get3 g) (get4 g)
      in convertLoop gs ts (addStation aStations lStation))"

definition convertStationToSignal :: "Signal \<Rightarrow> Stations \<Rightarrow> Stations" where
  "convertStationToSignal sg aStations =
     convertLoop (mGroundStations sg) (mTimestamp sg) aStations"

text \<open>
  \<^verbatim>\<open>positionKnown(ax, ay, az)\<close>: the flag starts false and is set at every tuple whose
  first three components equal the arguments; the loop never leaves early.
\<close>

fun knownLoop :: "GroundStation list \<Rightarrow> real \<Rightarrow> real \<Rightarrow> real \<Rightarrow> bool \<Rightarrow> bool" where
  "knownLoop [] ax ay az isKnown = isKnown"
| "knownLoop (g # gs) ax ay az isKnown =
     knownLoop gs ax ay az
       (if get0 g = ax \<and> get1 g = ay \<and> get2 g = az then True else isKnown)"

definition positionKnown :: "Signal \<Rightarrow> real \<Rightarrow> real \<Rightarrow> real \<Rightarrow> bool" where
  "positionKnown sg ax ay az = knownLoop (mGroundStations sg) ax ay az False"

definition Signal_getSize :: "Signal \<Rightarrow> int" where
  "Signal_getSize sg = int (length (mGroundStations sg))"

subsection \<open>class PositionsList\<close>

text \<open>
  \<^verbatim>\<open>Position\<close> is an array of five \<^verbatim>\<open>long double\<close> values; the header's comment
  names them "xs, ys, zs, rs from Apollonius, combination id". The fields below are the
  elements \<^verbatim>\<open>at(0)\<close> to \<^verbatim>\<open>at(4)\<close>, in this order, all of the one element type.
\<close>

record Position =
  pos_x :: real
  pos_y :: real
  pos_z :: real
  pos_r :: real
  pos_comb :: real

record PositionsList =
  mPositions :: "Position list"

definition PositionsList_new :: PositionsList where
  "PositionsList_new = \<lparr>mPositions = []\<rparr>"

text \<open>\<^verbatim>\<open>addPosition(Position aPosition)\<close>: \<^verbatim>\<open>mPositions.push_back(aPosition)\<close>.\<close>

definition addPosition :: "PositionsList \<Rightarrow> Position \<Rightarrow> PositionsList" where
  "addPosition pl aPosition = pl\<lparr>mPositions := mPositions pl @ [aPosition]\<rparr>"

text \<open>
  \<^verbatim>\<open>addPosition(aPosVec, combSt = {0})\<close>: three branches on the size of the vector.
  With five elements all five are stored; with four, or more than five, the first four
  and a last element 0; otherwise the first three and two zeros, where \<^verbatim>\<open>at\<close> throws on
  a vector of fewer than three elements. The parameter \<^verbatim>\<open>combSt\<close> is not used.
\<close>

definition addPosition_vec ::
  "PositionsList \<Rightarrow> real list \<Rightarrow> int list \<Rightarrow> error + PositionsList" where
  "addPosition_vec pl aPosVec combSt =
     (if length aPosVec = 5 then
        (case (vec_at aPosVec 0, vec_at aPosVec 1, vec_at aPosVec 2,
               vec_at aPosVec 3, vec_at aPosVec 4) of
           (Inr a, Inr b, Inr c, Inr d, Inr e) \<Rightarrow>
             Inr (pl\<lparr>mPositions := mPositions pl @
               [\<lparr>pos_x = a, pos_y = b, pos_z = c, pos_r = d, pos_comb = e\<rparr>]\<rparr>)
         | _ \<Rightarrow> Inl OutOfRange)
      else if length aPosVec > 3 then
        (case (vec_at aPosVec 0, vec_at aPosVec 1, vec_at aPosVec 2, vec_at aPosVec 3) of
           (Inr a, Inr b, Inr c, Inr d) \<Rightarrow>
             Inr (pl\<lparr>mPositions := mPositions pl @
               [\<lparr>pos_x = a, pos_y = b, pos_z = c, pos_r = d, pos_comb = 0\<rparr>]\<rparr>)
         | _ \<Rightarrow> Inl OutOfRange)
      else
        (case (vec_at aPosVec 0, vec_at aPosVec 1, vec_at aPosVec 2) of
           (Inr a, Inr b, Inr c) \<Rightarrow>
             Inr (pl\<lparr>mPositions := mPositions pl @
               [\<lparr>pos_x = a, pos_y = b, pos_z = c, pos_r = 0, pos_comb = 0\<rparr>]\<rparr>)
         | _ \<Rightarrow> Inl OutOfRange))"

definition getPosition :: "PositionsList \<Rightarrow> int \<Rightarrow> error + Position" where
  "getPosition pl aIndex = vec_at (mPositions pl) aIndex"

definition PositionsList_size :: "PositionsList \<Rightarrow> int" where
  "PositionsList_size pl = int (length (mPositions pl))"

text \<open>The element getters: \<^verbatim>\<open>mPositions.at(aIndex).at(k)\<close>.\<close>

definition getX :: "PositionsList \<Rightarrow> int \<Rightarrow> error + real" where
  "getX pl aIndex =
     (case vec_at (mPositions pl) aIndex of Inl e \<Rightarrow> Inl e | Inr p \<Rightarrow> Inr (pos_x p))"

definition getY :: "PositionsList \<Rightarrow> int \<Rightarrow> error + real" where
  "getY pl aIndex =
     (case vec_at (mPositions pl) aIndex of Inl e \<Rightarrow> Inl e | Inr p \<Rightarrow> Inr (pos_y p))"

definition getZ :: "PositionsList \<Rightarrow> int \<Rightarrow> error + real" where
  "getZ pl aIndex =
     (case vec_at (mPositions pl) aIndex of Inl e \<Rightarrow> Inl e | Inr p \<Rightarrow> Inr (pos_z p))"

definition getR :: "PositionsList \<Rightarrow> int \<Rightarrow> error + real" where
  "getR pl aIndex =
     (case vec_at (mPositions pl) aIndex of Inl e \<Rightarrow> Inl e | Inr p \<Rightarrow> Inr (pos_r p))"

definition getCombId :: "PositionsList \<Rightarrow> int \<Rightarrow> error + real" where
  "getCombId pl aIndex =
     (case vec_at (mPositions pl) aIndex of Inl e \<Rightarrow> Inl e | Inr p \<Rightarrow> Inr (pos_comb p))"

text \<open>
  The difference of two getters, as in \<^verbatim>\<open>getX(aIndexFirst) - getX(aIndexSecond)\<close>: it
  throws when either getter does.
\<close>

definition diff_of :: "error + real \<Rightarrow> error + real \<Rightarrow> error + real" where
  "diff_of a b =
     (case a of
        Inl e \<Rightarrow> Inl e
      | Inr u \<Rightarrow> (case b of Inl e \<Rightarrow> Inl e | Inr v \<Rightarrow> Inr (u - v)))"

text \<open>\<^verbatim>\<open>getDistance(aIndexFirst, aIndexSecond)\<close>: \<^verbatim>\<open>sqrt(dx*dx + dy*dy + dz*dz)\<close>.\<close>

definition getDistance :: "PositionsList \<Rightarrow> int \<Rightarrow> int \<Rightarrow> error + real" where
  "getDistance pl aIndexFirst aIndexSecond =
     (case diff_of (getX pl aIndexFirst) (getX pl aIndexSecond) of
        Inl e \<Rightarrow> Inl e
      | Inr dx \<Rightarrow>
     (case diff_of (getY pl aIndexFirst) (getY pl aIndexSecond) of
        Inl e \<Rightarrow> Inl e
      | Inr dy \<Rightarrow>
     (case diff_of (getZ pl aIndexFirst) (getZ pl aIndexSecond) of
        Inl e \<Rightarrow> Inl e
      | Inr dz \<Rightarrow> Inr (sqrt (dx * dx + dy * dy + dz * dz)))))"

text \<open>
  \<^verbatim>\<open>printAveragePosition()\<close>: \<^verbatim>\<open>positionsNb = mPositions.size()\<close>, and the loop adds
  \<^verbatim>\<open>at(k) / positionsNb\<close> of every position to \<^verbatim>\<open>x, y, z\<close>, which start at 0. The
  division is inside the loop body, so it only runs with \<open>positionsNb \<ge> 1\<close>. The result
  is the triple that is printed.
\<close>

fun averageLoop :: "Position list \<Rightarrow> int \<Rightarrow> real \<times> real \<times> real \<Rightarrow> real \<times> real \<times> real" where
  "averageLoop [] positionsNb acc = acc"
| "averageLoop (p # ps) positionsNb (x, y, z) =
     averageLoop ps positionsNb
       (x + pos_x p / of_int positionsNb,
        y + pos_y p / of_int positionsNb,
        z + pos_z p / of_int positionsNb)"

definition printAveragePosition :: "PositionsList \<Rightarrow> real \<times> real \<times> real" where
  "printAveragePosition pl =
     (let positionsNb = int (length (mPositions pl))
      in averageLoop (mPositions pl) positionsNb (0, 0, 0))"

section \<open>Helper facts\<close>

lemma vec_at_append_old:
  assumes "0 \<le> i" and "i < int (length v)"
  shows "vec_at (v @ w) i = vec_at v i"
proof -
  from assms have "nat i < length v" by linarith
  with assms show ?thesis by (simp add: vec_at_def nth_append)
qed

lemma vec_at_append_new: "vec_at (v @ [a]) (int (length v)) = Inr a"
  by (simp add: vec_at_def)

lemma convertLoop_mStations:
  "mStations (convertLoop gs ts sts) =
     mStations sts @ map (\<lambda>g. Station_range (get0 g) (get1 g) (get2 g) ts (get3 g) (get4 g)) gs"
  by (induction gs arbitrary: sts) (simp_all add: addStation_def Let_def)

lemma foldl_addStation_mStations:
  "mStations (foldl addStation sts ss) = mStations sts @ ss"
  by (induction ss arbitrary: sts) (simp_all add: addStation_def)

lemma knownLoop_iff:
  "knownLoop gs ax ay az k \<longleftrightarrow>
     k \<or> (\<exists>g\<in>set gs. get0 g = ax \<and> get1 g = ay \<and> get2 g = az)"
  by (induction gs arbitrary: k) auto

lemma averageLoop_sum:
  "averageLoop ps n (x, y, z) =
     (x + sum_list (map pos_x ps) / of_int n,
      y + sum_list (map pos_y ps) / of_int n,
      z + sum_list (map pos_z ps) / of_int n)"
  by (induction ps arbitrary: x y z) (simp_all add: add_divide_distrib)

subsection \<open>The delay loop in closed form\<close>

text \<open>
  The loop folds \<open>min\<close> and \<open>max\<close> over the delays starting from the seeds of
  \<open>delayInit\<close>, so what it reports is \<open>min 100 (Min ds)\<close> and \<open>max 0 (Max ds)\<close>.
\<close>

lemma Signal_delayLoop_fold:
  "Signal_delayLoop gs (mn, mx, sm) =
     (fold min (map get4 gs) mn, fold max (map get4 gs) mx, sm + sum_list (map get4 gs))"
  by (induction gs arbitrary: mn mx sm) (auto simp: min_def max_def)

lemma Stations_delayLoop_fold:
  "map getDelay ss = map Some ds \<Longrightarrow>
   Stations_delayLoop ss (mn, mx, sm) =
     Some (fold min ds mn, fold max ds mx, sm + sum_list ds)"
  by (induction ss arbitrary: ds mn mx sm) (auto simp: min_def max_def)

lemma Stations_delayLoop_None:
  "None \<in> set (map getDelay ss) \<Longrightarrow> Stations_delayLoop ss acc = None"
  by (induction ss arbitrary: acc) (auto split: option.splits)

lemma fold_min_Min: "ds \<noteq> [] \<Longrightarrow> fold min ds (a::real) = min a (Min (set ds))"
  using Min.set_eq_fold [of a ds]
  by (metis Min_insert List.finite_set list.simps(15) set_empty)

lemma fold_max_Max: "ds \<noteq> [] \<Longrightarrow> fold max ds (a::real) = max a (Max (set ds))"
  using Max.set_eq_fold [of a ds]
  by (metis Max_insert List.finite_set list.simps(15) set_empty)

lemma Signal_printDelayStats_general:
  assumes "mGroundStations sg \<noteq> []"
  shows "Signal_printDelayStats sg =
     \<lparr>rep_satId = mSatId sg, rep_timestamp = mTimestamp sg,
      rep_mean = Finite (sum_list (map get4 (mGroundStations sg))
                          / real (length (mGroundStations sg))),
      rep_min = min 100 (Min (get4 ` set (mGroundStations sg))),
      rep_max = max 0 (Max (get4 ` set (mGroundStations sg)))\<rparr>"
  using assms
  by (simp add: Signal_printDelayStats_def delayInit_def Signal_delayLoop_fold fdiv_def
      fold_min_Min fold_max_Max)

lemma Stations_printDelayStats_general:
  assumes "mStations sts \<noteq> []" and "map getDelay (mStations sts) = map Some ds"
  shows "Stations_printDelayStats sts aSatId aTimestamp =
     Some \<lparr>rep_satId = aSatId, rep_timestamp = aTimestamp,
      rep_mean = Finite (sum_list ds / real (length ds)),
      rep_min = min 100 (Min (set ds)),
      rep_max = max 0 (Max (set ds))\<rparr>"
proof -
  have len: "length (mStations sts) = length ds"
    using assms(2) by (metis length_map)
  with assms(1) have ne: "ds \<noteq> []" by auto
  show ?thesis
    using ne len
    by (simp add: Stations_printDelayStats_def delayInit_def
        Stations_delayLoop_fold [OF assms(2)] fdiv_def fold_min_Min fold_max_Max)
qed

text \<open>
  When every delay lies between the two seeds, the reported values are the minimum, the
  mean and the maximum of the delays.
\<close>

lemma Signal_printDelayStats_within_seeds:
  assumes ne: "mGroundStations sg \<noteq> []"
    and bounds: "\<forall>g\<in>set (mGroundStations sg). 0 \<le> get4 g \<and> get4 g \<le> 100"
  shows "rep_min (Signal_printDelayStats sg) = Min (get4 ` set (mGroundStations sg))
     \<and> rep_max (Signal_printDelayStats sg) = Max (get4 ` set (mGroundStations sg))
     \<and> rep_mean (Signal_printDelayStats sg)
         = Finite (sum_list (map get4 (mGroundStations sg))
                    / real (length (mGroundStations sg)))"
proof -
  let ?D = "get4 ` set (mGroundStations sg)"
  have fin: "finite ?D" and nonempty: "?D \<noteq> {}"
    using ne by simp_all
  have "Min ?D \<in> ?D" and "Max ?D \<in> ?D"
    using fin nonempty by (rule Min_in, rule Max_in)
  with bounds have "Min ?D \<le> 100" and "0 \<le> Max ?D"
    by auto
  then show ?thesis
    by (simp add: Signal_printDelayStats_general [OF ne] min_def max_def)
qed

section \<open>Range resolution\<close>

text \<open>
  C1. Range resolution computes \<open>range = (t - t0) * c\<close> with \<open>c = 299792458\<close>:
  \<^verbatim>\<open>Station::setR\<close> stores the time difference \<open>t - t0\<close> and the range
  \<open>(t - t0) * 299792458\<close> (of the receive time the station holds), and the overload of
  \<^verbatim>\<open>Signal::addGroundStation\<close> that takes a time difference appends a ground station
  whose range is that difference times the same value 299792458.
\<close>

theorem range_resolution_speed_of_light:
  "st_dt (setR s t0) = map_option (\<lambda>t. t - t0) (st_t s)
   \<and> Station_getR (setR s t0) = map_option (\<lambda>t. (t - t0) * 299792458) (st_t s)
   \<and> mGroundStations (addGroundStation_dt sg ax ay az at0 adt aDelay)
       = mGroundStations sg @ [(ax, ay, az, 299792458 * adt, aDelay)]"
  by (simp add: setR_def Station_getR_def addGroundStation_dt_def Let_def
      option.map_comp comp_def)

theorem range_resolution_speed_of_light_witness:
  "Station_getR (setR (Station_recv 1 2 3 5) 3) = Some 599584916
   \<and> mGroundStations (addGroundStation_dt (Signal_new 1 3) 1 2 3 3 2 0)
       = [(1, 2, 3, 599584916, 0)]"
  using range_resolution_speed_of_light
    [of "Station_recv 1 2 3 5" 3 "Signal_new 1 3" 1 2 3 3 2 0]
  by (simp add: Station_recv_def Signal_new_def)

text \<open>
  C2 (as amended). Range resolution never fails, and there is no \<open>InvalidTiming\<close>:
  \<^verbatim>\<open>setR\<close> on a station holding the receive time \<open>t\<close> stores the range
  \<open>(t - t0) * 299792458\<close>, which is negative exactly when \<open>t < t0\<close>. The overload of
  \<^verbatim>\<open>addGroundStation\<close> that takes a time difference appends the ground station whatever
  the sign of the difference, with a range that is negative exactly when the difference
  is, and \<^verbatim>\<open>convertStationToSignal\<close> carries it into the station set.
\<close>

theorem setR_range_sign:
  assumes "st_t s = Some tv"
  shows "Station_getR (setR s t0) = Some ((tv - t0) * 299792458)
     \<and> ((tv - t0) * 299792458 < 0 \<longleftrightarrow> tv < t0)
     \<and> mStations (convertStationToSignal (addGroundStation_dt sg ax ay az at0 adt aDelay) sts)
        = mStations (convertStationToSignal sg sts)
          @ [Station_range ax ay az (mTimestamp sg) (299792458 * adt) aDelay]
     \<and> (299792458 * adt < 0 \<longleftrightarrow> adt < 0)"
  using assms
  by (simp add: setR_def Station_getR_def convertStationToSignal_def convertLoop_mStations
      addGroundStation_dt_def Let_def mult_less_0_iff)

theorem setR_range_sign_witness:
  "st_t (Station_recv 1 2 3 5) = Some 5
   \<and> Station_getR (setR (Station_recv 1 2 3 5) 7) = Some (- 599584916)"
  using setR_range_sign [of "Station_recv 1 2 3 5" 5 7 "Signal_new 1 0" 0 0 0 0 0 0 Stations_new]
  by (simp add: Station_recv_def)

text \<open>
  The claim as stated fails: a station that received at time 0 a signal sent at time 1
  holds the range \<open>-299792458\<close> after \<^verbatim>\<open>setR\<close>, and a ground station added with the
  time difference \<open>-1\<close> is in the station set, with that negative range.
\<close>

theorem setR_negative_range_counterexample:
  "Station_getR (setR (Station_recv 0 0 0 0) 1) = Some (- 299792458)
   \<and> (- 299792458 :: real) < 0
   \<and> mStations (convertStationToSignal
        (addGroundStation_dt (Signal_new 1 0) 0 0 0 0 (- 1) 0) Stations_new)
       = [Station_range 0 0 0 0 (- 299792458) 0]"
  by (simp add: setR_def Station_getR_def Station_recv_def convertStationToSignal_def
      addGroundStation_dt_def Signal_new_def Stations_new_def addStation_def Let_def)

section \<open>Delay statistics\<close>

text \<open>
  C3. For a non-empty collection, \<^verbatim>\<open>printDelayStats\<close> is to report the minimum, the mean
  and the maximum of the delays. Evaluated on a single station whose delay is 150, both
  members report the mean 150 and the maximum 150, but the minimum 100: the seed of
  \<^verbatim>\<open>minDelay\<close>, which is no delay of the collection.
\<close>

theorem printDelayStats_min_above_100:
  "Stations_printDelayStats (addStation Stations_new (Station_range 0 0 0 0 0 150)) 1 0
     = Some \<lparr>rep_satId = 1, rep_timestamp = 0, rep_mean = Finite 150,
             rep_min = 100, rep_max = 150\<rparr>
   \<and> Signal_printDelayStats (addGroundStation_dt (Signal_new 1 0) 0 0 0 0 0 150)
     = \<lparr>rep_satId = 1, rep_timestamp = 0, rep_mean = Finite 150,
        rep_min = 100, rep_max = 150\<rparr>"
  by (simp add: Stations_printDelayStats_def Signal_printDelayStats_def addStation_def
      Stations_new_def Station_range_def getDelay_def delayInit_def fdiv_def
      addGroundStation_dt_def Signal_new_def Let_def)

text \<open>
  C10. The mean is \<^verbatim>\<open>sumDelay / size\<close> whatever the size. On an empty collection the
  loop leaves the sum at 0 and the division is \<open>0 / 0\<close>, which is not a number; the
  reported mean is not a number exactly when the collection is empty.
\<close>

theorem printDelayStats_empty_mean:
  "(rep_mean (Signal_printDelayStats sg) = NaN \<longleftrightarrow> mGroundStations sg = [])
   \<and> (map_option rep_mean (Stations_printDelayStats sts aSatId aTimestamp) = Some NaN
        \<longleftrightarrow> mStations sts = [])
   \<and> Signal_delayLoop [] delayInit = (100, 0, 0)
   \<and> Stations_delayLoop [] delayInit = Some (100, 0, 0)
   \<and> fdiv 0 (length ([] :: GroundStation list)) = NaN"
proof -
  have a: "rep_mean (Signal_printDelayStats sg) = NaN \<longleftrightarrow> mGroundStations sg = []"
  proof (cases "mGroundStations sg = []")
    case True
    then show ?thesis
      by (simp add: Signal_printDelayStats_def delayInit_def fdiv_def)
  next
    case False
    then show ?thesis
      by (simp add: Signal_printDelayStats_general)
  qed
  have b: "map_option rep_mean (Stations_printDelayStats sts aSatId aTimestamp) = Some NaN
        \<longleftrightarrow> mStations sts = []"
  proof (cases "mStations sts = []")
    case True
    then show ?thesis
      by (simp add: Stations_printDelayStats_def delayInit_def fdiv_def)
  next
    case False
    then show ?thesis
      by (auto simp: Stations_printDelayStats_def fdiv_def split: option.splits)
  qed
  show ?thesis using a b by (simp add: delayInit_def fdiv_def)
qed

theorem printDelayStats_empty_mean_witness:
  "Signal_printDelayStats (Signal_new 7 3)
     = \<lparr>rep_satId = 7, rep_timestamp = 3, rep_mean = NaN, rep_min = 100, rep_max = 0\<rparr>
   \<and> Stations_printDelayStats Stations_new 7 3
     = Some \<lparr>rep_satId = 7, rep_timestamp = 3, rep_mean = NaN, rep_min = 100, rep_max = 0\<rparr>
   \<and> rep_mean (Signal_printDelayStats (addGroundStation (Signal_new 7 3) 1 2 3 4)) \<noteq> NaN"
proof -
  have ne: "mGroundStations (addGroundStation (Signal_new 7 3) 1 2 3 4) \<noteq> []"
    by (simp add: addGroundStation_def)
  have "rep_mean (Signal_printDelayStats (addGroundStation (Signal_new 7 3) 1 2 3 4)) \<noteq> NaN"
    using printDelayStats_empty_mean [of "addGroundStation (Signal_new 7 3) 1 2 3 4"] ne
    by simp
  then show ?thesis
    by (simp add: Signal_new_def Stations_new_def Signal_printDelayStats_def
        Stations_printDelayStats_def delayInit_def fdiv_def)
qed

section \<open>The candidate store\<close>

text \<open>
  C4. For two stored candidates \<open>p\<close> and \<open>q\<close> at the valid indices \<open>i\<close> and \<open>j\<close>,
  \<^verbatim>\<open>getDistance(i, j)\<close> returns the Euclidean distance of their positions,
  \<open>sqrt ((x\<^sub>p - x\<^sub>q)\<^sup>2 + (y\<^sub>p - y\<^sub>q)\<^sup>2 + (z\<^sub>p - z\<^sub>q)\<^sup>2)\<close>; it is symmetric in \<open>i\<close> and \<open>j\<close>,
  and zero when both indices are the same.
\<close>

theorem getDistance_euclidean:
  assumes "getPosition pl i = Inr p" and "getPosition pl j = Inr q"
  shows "getDistance pl i j
           = Inr (sqrt ((pos_x p - pos_x q)\<^sup>2 + (pos_y p - pos_y q)\<^sup>2 + (pos_z p - pos_z q)\<^sup>2))
     \<and> getDistance pl i j = getDistance pl j i
     \<and> getDistance pl i i = Inr 0"
proof -
  have d: "getDistance pl i j
      = Inr (sqrt ((pos_x p - pos_x q)\<^sup>2 + (pos_y p - pos_y q)\<^sup>2 + (pos_z p - pos_z q)\<^sup>2))"
    if "getPosition pl i = Inr p" and "getPosition pl j = Inr q" for i j p q
    using that
    by (simp add: getDistance_def getPosition_def getX_def getY_def getZ_def diff_of_def
        power2_eq_square)
  have sym: "(a - b)\<^sup>2 = (b - a)\<^sup>2" for a b :: real
    by (simp add: power2_commute)
  show ?thesis
    using d [OF assms] d [OF assms(2) assms(1)] d [OF assms(1) assms(1)]
    by (simp add: sym [of "pos_x p"] sym [of "pos_y p"] sym [of "pos_z p"])
qed

theorem getDistance_euclidean_witness:
  "getPosition (addPosition (addPosition PositionsList_new
       \<lparr>pos_x = 0, pos_y = 0, pos_z = 0, pos_r = 1, pos_comb = 0\<rparr>)
       \<lparr>pos_x = 3, pos_y = 4, pos_z = 0, pos_r = 2, pos_comb = 1\<rparr>) 0
     = Inr \<lparr>pos_x = 0, pos_y = 0, pos_z = 0, pos_r = 1, pos_comb = 0\<rparr>
   \<and> getPosition (addPosition (addPosition PositionsList_new
       \<lparr>pos_x = 0, pos_y = 0, pos_z = 0, pos_r = 1, pos_comb = 0\<rparr>)
       \<lparr>pos_x = 3, pos_y = 4, pos_z = 0, pos_r = 2, pos_comb = 1\<rparr>) 1
     = Inr \<lparr>pos_x = 3, pos_y = 4, pos_z = 0, pos_r = 2, pos_comb = 1\<rparr>
   \<and> getDistance (addPosition (addPosition PositionsList_new
       \<lparr>pos_x = 0, pos_y = 0, pos_z = 0, pos_r = 1, pos_comb = 0\<rparr>)
       \<lparr>pos_x = 3, pos_y = 4, pos_z = 0, pos_r = 2, pos_comb = 1\<rparr>) 0 1 = Inr 5"
proof -
  let ?p = "\<lparr>pos_x = 0, pos_y = 0, pos_z = 0, pos_r = 1, pos_comb = 0\<rparr>"
  let ?q = "\<lparr>pos_x = 3, pos_y = 4, pos_z = 0, pos_r = 2, pos_comb = 1\<rparr>"
  let ?pl = "addPosition (addPosition PositionsList_new ?p) ?q"
  have hp: "getPosition ?pl 0 = Inr ?p"
    by (simp add: getPosition_def addPosition_def PositionsList_new_def vec_at_def)
  have hq: "getPosition ?pl 1 = Inr ?q"
    by (simp add: getPosition_def addPosition_def PositionsList_new_def vec_at_def)
  have "sqrt 25 = 5"
    by (rule real_sqrt_unique) simp_all
  with getDistance_euclidean [OF hp hq] hp hq show ?thesis
    by simp
qed

text \<open>
  C5. For a non-empty store of \<open>n\<close> positions, \<^verbatim>\<open>printAveragePosition\<close> reports the
  unweighted centroid: each coordinate is the sum of that coordinate over all stored
  positions, divided by \<open>n\<close>.
\<close>

theorem printAveragePosition_centroid:
  assumes "mPositions pl \<noteq> []"
  shows "printAveragePosition pl =
     (sum_list (map pos_x (mPositions pl)) / real (length (mPositions pl)),
      sum_list (map pos_y (mPositions pl)) / real (length (mPositions pl)),
      sum_list (map pos_z (mPositions pl)) / real (length (mPositions pl)))"
  by (simp add: printAveragePosition_def averageLoop_sum Let_def)

theorem printAveragePosition_centroid_witness:
  "mPositions (addPosition (addPosition PositionsList_new
       \<lparr>pos_x = 1, pos_y = 2, pos_z = 3, pos_r = 1, pos_comb = 0\<rparr>)
       \<lparr>pos_x = 3, pos_y = 4, pos_z = 6, pos_r = 2, pos_comb = 1\<rparr>) \<noteq> []
   \<and> printAveragePosition (addPosition (addPosition PositionsList_new
       \<lparr>pos_x = 1, pos_y = 2, pos_z = 3, pos_r = 1, pos_comb = 0\<rparr>)
       \<lparr>pos_x = 3, pos_y = 4, pos_z = 6, pos_r = 2, pos_comb = 1\<rparr>) = (2, 3, 9 / 2)"
proof -
  let ?pl = "addPosition (addPosition PositionsList_new
       \<lparr>pos_x = 1, pos_y = 2, pos_z = 3, pos_r = 1, pos_comb = 0\<rparr>)
       \<lparr>pos_x = 3, pos_y = 4, pos_z = 6, pos_r = 2, pos_comb = 1\<rparr>"
  have ne: "mPositions ?pl \<noteq> []"
    by (simp add: addPosition_def)
  show ?thesis
    using printAveragePosition_centroid [OF ne] ne
    by (simp add: addPosition_def PositionsList_new_def)
qed

text \<open>
  C6 (as amended). The combination identifier is the fifth element of the position
  array, of the same element type as the coordinates. A candidate added from a vector
  of five elements whose last element is the integer \<open>n\<close> is stored with all five
  elements, and \<^verbatim>\<open>getCombId\<close> at its index returns exactly \<open>n\<close>.
\<close>

theorem getCombId_reads_stored_slot:
  assumes "length aPosVec = 5" and "aPosVec ! 4 = of_int n"
  shows "addPosition_vec pl aPosVec combSt
           = Inr (addPosition pl \<lparr>pos_x = aPosVec ! 0, pos_y = aPosVec ! 1,
                    pos_z = aPosVec ! 2, pos_r = aPosVec ! 3, pos_comb = of_int n\<rparr>)
     \<and> getCombId (addPosition pl \<lparr>pos_x = aPosVec ! 0, pos_y = aPosVec ! 1,
                    pos_z = aPosVec ! 2, pos_r = aPosVec ! 3, pos_comb = of_int n\<rparr>)
          (PositionsList_size pl) = Inr (of_int n)"
  using assms
  by (simp add: addPosition_vec_def addPosition_def vec_at_def getCombId_def
      PositionsList_size_def)

theorem getCombId_reads_stored_slot_witness:
  "length [1, 2, 3, 4, 7 :: real] = 5 \<and> [1, 2, 3, 4, 7 :: real] ! 4 = of_int 7
   \<and> addPosition_vec PositionsList_new [1, 2, 3, 4, 7] [0]
       = Inr (addPosition PositionsList_new
           \<lparr>pos_x = 1, pos_y = 2, pos_z = 3, pos_r = 4, pos_comb = 7\<rparr>)
   \<and> getCombId (addPosition PositionsList_new
           \<lparr>pos_x = 1, pos_y = 2, pos_z = 3, pos_r = 4, pos_comb = 7\<rparr>) 0 = Inr 7"
  using getCombId_reads_stored_slot [of "[1, 2, 3, 4, 7]" 7 PositionsList_new "[0]"]
  by (simp add: PositionsList_size_def PositionsList_new_def)

text \<open>
  The identifier is not an integer kept apart from the floating-point fields: the store
  takes the value one half as an identifier and \<^verbatim>\<open>getCombId\<close> returns it.
\<close>

theorem getCombId_non_integer_counterexample:
  "(case addPosition_vec PositionsList_new [0, 0, 0, 0, 1 / 2] [0] of
      Inl e \<Rightarrow> Inl e
    | Inr pl \<Rightarrow> getCombId pl 0) = Inr (1 / 2)
   \<and> (1 / 2 :: real) \<notin> \<int>"
proof -
  have "(1 / 2 :: real) \<notin> \<int>"
  proof
    assume "(1 / 2 :: real) \<in> \<int>"
    then obtain k :: int where k: "(1 / 2 :: real) = of_int k" by (auto elim: Ints_cases)
    then have "(1::real) = of_int (2 * k)" by simp
    then have "(1::int) = 2 * k" using of_int_eq_iff [where ?'a = real] by (metis of_int_1)
    then show False by presburger
  qed
  then show ?thesis
    by (simp add: addPosition_vec_def vec_at_def PositionsList_new_def getCombId_def)
qed

text \<open>
  C7. The candidate store never deduplicates: adding a position \<open>p\<close>, whether or not an
  equal position is stored already, increases the size by exactly one, leaves every
  stored candidate unchanged at its index, and puts \<open>p\<close> at the new last index.
\<close>

theorem addPosition_no_dedup:
  "PositionsList_size (addPosition pl p) = PositionsList_size pl + 1
   \<and> (\<forall>i. 0 \<le> i \<and> i < PositionsList_size pl
          \<longrightarrow> getPosition (addPosition pl p) i = getPosition pl i)
   \<and> getPosition (addPosition pl p) (PositionsList_size pl) = Inr p"
  by (simp add: PositionsList_size_def addPosition_def getPosition_def
      vec_at_append_old vec_at_append_new)

theorem addPosition_no_dedup_witness:
  "PositionsList_size (addPosition (addPosition PositionsList_new
       \<lparr>pos_x = 1, pos_y = 2, pos_z = 3, pos_r = 4, pos_comb = 5\<rparr>)
       \<lparr>pos_x = 1, pos_y = 2, pos_z = 3, pos_r = 4, pos_comb = 5\<rparr>) = 2
   \<and> (0::int) \<le> 0
   \<and> 0 < PositionsList_size (addPosition PositionsList_new
       \<lparr>pos_x = 1, pos_y = 2, pos_z = 3, pos_r = 4, pos_comb = 5\<rparr>)
   \<and> getPosition (addPosition (addPosition PositionsList_new
       \<lparr>pos_x = 1, pos_y = 2, pos_z = 3, pos_r = 4, pos_comb = 5\<rparr>)
       \<lparr>pos_x = 1, pos_y = 2, pos_z = 3, pos_r = 4, pos_comb = 5\<rparr>) 0
     = Inr \<lparr>pos_x = 1, pos_y = 2, pos_z = 3, pos_r = 4, pos_comb = 5\<rparr>
   \<and> getPosition (addPosition (addPosition PositionsList_new
       \<lparr>pos_x = 1, pos_y = 2, pos_z = 3, pos_r = 4, pos_comb = 5\<rparr>)
       \<lparr>pos_x = 1, pos_y = 2, pos_z = 3, pos_r = 4, pos_comb = 5\<rparr>) 1
     = Inr \<lparr>pos_x = 1, pos_y = 2, pos_z = 3, pos_r = 4, pos_comb = 5\<rparr>"
proof -
  let ?p = "\<lparr>pos_x = 1, pos_y = 2, pos_z = 3, pos_r = 4, pos_comb = 5\<rparr>"
  let ?pl = "addPosition PositionsList_new ?p"
  have sz: "PositionsList_size ?pl = 1"
    by (simp add: PositionsList_size_def addPosition_def PositionsList_new_def)
  have old: "getPosition ?pl 0 = Inr ?p"
    by (simp add: getPosition_def addPosition_def PositionsList_new_def vec_at_def)
  from addPosition_no_dedup [of ?pl ?p] sz old show ?thesis
    by simp
qed

section \<open>The station set\<close>

text \<open>
  C8. The station set preserves insertion order: after the stations \<open>ss\<close> have been added
  one by one to an empty collection, \<^verbatim>\<open>size()\<close> is the number of stations added and
  \<^verbatim>\<open>getStation(i)\<close> returns the \<open>i\<close>-th of them, for every \<open>i\<close> from 0 to
  \<^verbatim>\<open>size() - 1\<close>. The two members that add a station from its coordinates add the
  station that the matching constructor builds, in the same way.
\<close>

theorem Stations_insertion_order:
  "Stations_size (foldl addStation Stations_new ss) = int (length ss)
   \<and> (\<forall>i. 0 \<le> i \<and> i < Stations_size (foldl addStation Stations_new ss)
          \<longrightarrow> getStation (foldl addStation Stations_new ss) i = Inr (ss ! nat i))
   \<and> addStation_range sts ax ay az at0 aR = addStation sts (Station_range ax ay az at0 aR 0)
   \<and> addStations sts ax ay az aT = addStation sts (Station_recv ax ay az aT)"
  by (simp add: Stations_size_def getStation_def foldl_addStation_mStations
      Stations_new_def vec_at_def addStation_range_def addStations_def addStation_def)

theorem Stations_insertion_order_witness:
  "Stations_size (foldl addStation Stations_new
      [Station_recv 1 2 3 4, Station_range 5 6 7 8 9 10]) = 2
   \<and> (0::int) \<le> 1
   \<and> 1 < Stations_size (foldl addStation Stations_new
      [Station_recv 1 2 3 4, Station_range 5 6 7 8 9 10])
   \<and> getStation (addStation (addStation Stations_new (Station_recv 1 2 3 4))
        (Station_range 5 6 7 8 9 10)) 1 = Inr (Station_range 5 6 7 8 9 10)"
  using Stations_insertion_order
    [of "[Station_recv 1 2 3 4, Station_range 5 6 7 8 9 10]" Stations_new 0 0 0 0 0 0]
  by simp

section \<open>Known positions of a signal\<close>

text \<open>
  C9. \<^verbatim>\<open>positionKnown(x, y, z)\<close> is true if and only if some ground station of the signal
  has exactly these three coordinates. A new signal knows no position, and each of the
  two \<^verbatim>\<open>addGroundStation\<close> overloads makes known the coordinates it is given, whatever
  range and delay come with them, and nothing else.
\<close>

theorem positionKnown_iff:
  "(positionKnown sg ax ay az \<longleftrightarrow>
      (\<exists>g\<in>set (mGroundStations sg). get0 g = ax \<and> get1 g = ay \<and> get2 g = az))
   \<and> \<not> positionKnown (Signal_new aSatId aTimestamp) ax ay az
   \<and> (positionKnown (addGroundStation sg cx cy cz cr) ax ay az \<longleftrightarrow>
        (cx = ax \<and> cy = ay \<and> cz = az) \<or> positionKnown sg ax ay az)
   \<and> (positionKnown (addGroundStation_dt sg cx cy cz ct0 cdt cDelay) ax ay az \<longleftrightarrow>
        (cx = ax \<and> cy = ay \<and> cz = az) \<or> positionKnown sg ax ay az)"
  by (auto simp: positionKnown_def knownLoop_iff Signal_new_def addGroundStation_def
      addGroundStation_dt_def Let_def)

theorem positionKnown_iff_witness:
  "positionKnown (addGroundStation (Signal_new 1 0) 1 2 3 10) 1 2 3
   \<and> \<not> positionKnown (addGroundStation (Signal_new 1 0) 1 2 3 10) 1 2 10"
  using positionKnown_iff [of "Signal_new 1 0" 1 2 3 1 0 1 2 3 10 0 1 2]
    positionKnown_iff [of "Signal_new 1 0" 1 2 10 1 0 1 2 3 10 0 1 2]
  by (simp add: Signal_new_def)

end
